theory Spec2Isabelle
  imports Complex_Main
begin

section \<open>The rendering core of \<^verbatim>\<open>src/client/js/canvas.js\<close>\<close>

text \<open>
  The three classes of \<^verbatim>\<open>canvas.js\<close> are embedded as records with explicit state
  passing: a method takes the object and returns the updated object. JavaScript numbers
  are modelled as \<^typ>\<open>real\<close>, so every statement below is about exact arithmetic; a
  property that is read from the host and may be absent is a \<open>js_value\<close>.
  Record fields keep the names of the source, except \<open>x\<close>, \<open>y\<close> and \<open>size\<close>, which are
  prefixed (\<open>pt_x\<close>, \<open>p_x\<close>, \<open>p_size\<close>, ...), and the canvas element's attributes, which
  are prefixed with \<open>canvas_\<close> and \<open>style_\<close>. The \<^verbatim>\<open>width\<close> and \<^verbatim>\<open>height\<close> of the canvas
  element are integers: the element converts what is assigned to them.
\<close>

subsection \<open>CanvasManager\<close>

text \<open>
  A property of \<^verbatim>\<open>navigator\<close> or \<^verbatim>\<open>window\<close>: a number, or \<^verbatim>\<open>undefined\<close> when the host
  lacks it.
\<close>

datatype js_value = Undefined | Number real

text \<open>
  The comparison \<^verbatim>\<open>v < c\<close> against a numeric literal: \<^verbatim>\<open>undefined\<close> is converted to NaN,
  and every comparison with NaN is false.
\<close>

fun js_lt :: "js_value \<Rightarrow> real \<Rightarrow> bool" where
  "js_lt Undefined c = False"
| "js_lt (Number v) c = (v < c)"

record PerformanceSettings =
  particleCount :: nat
  frameRate :: nat
  enableShadows :: bool
  enableBlur :: bool

text \<open>
  \<^verbatim>\<open>detectPerformance()\<close> reads \<^verbatim>\<open>navigator.hardwareConcurrency\<close>, \<^verbatim>\<open>navigator.deviceMemory\<close>
  and \<^verbatim>\<open>window.innerWidth\<close>; they are its three arguments, in that order.
\<close>

definition detectPerformance :: "js_value \<Rightarrow> js_value \<Rightarrow> js_value \<Rightarrow> PerformanceSettings" where
  "detectPerformance hardwareConcurrency deviceMemory innerWidth =
     (let isLowEnd = (js_lt hardwareConcurrency 4 \<or> js_lt deviceMemory 2 \<or> js_lt innerWidth 768)
      in \<lparr> particleCount = (if isLowEnd then 10 else 20),
           frameRate = (if isLowEnd then 30 else 60),
           enableShadows = (\<not> isLowEnd),
           enableBlur = (\<not> isLowEnd) \<rparr>)"

text \<open>The two values \<open>detectPerformance\<close> returns, named as the specification names them.\<close>

definition lowEnd :: PerformanceSettings where
  "lowEnd = \<lparr> particleCount = 10, frameRate = 30, enableShadows = False, enableBlur = False \<rparr>"

definition highEnd :: PerformanceSettings where
  "highEnd = \<lparr> particleCount = 20, frameRate = 60, enableShadows = True, enableBlur = True \<rparr>"

text \<open>The rectangle returned by \<^verbatim>\<open>canvas.getBoundingClientRect()\<close>.\<close>

record DOMRect =
  rect_width :: real
  rect_height :: real

text \<open>A CSS length as \<^verbatim>\<open>resize()\<close> writes it: the number followed by \<^verbatim>\<open>'px'\<close>.\<close>

datatype css_length = Px real

text \<open>The calls issued to the 2D drawing context, recorded in the order they are made.\<close>

datatype ctx_call = Scale real real

text \<open>
  \<^verbatim>\<open>canvas.width\<close> and \<^verbatim>\<open>canvas.height\<close> are attributes of type \<^verbatim>\<open>unsigned long\<close> of the
  canvas element (\<^verbatim>\<open>document.getElementById\<close>, \<^verbatim>\<open>getContext('2d')\<close>), not plain properties.
  A number assigned to one of them is converted: its integer part is taken (the
  fraction is dropped, towards zero), reduced modulo \<open>2^32\<close>, and kept if it is at most
  \<open>2^31 - 1\<close>; otherwise the attribute takes its default, 300 for the width and 150 for
  the height.
\<close>

definition integerPart :: "real \<Rightarrow> int" where
  "integerPart v = (if v < 0 then - \<lfloor>- v\<rfloor> else \<lfloor>v\<rfloor>)"

definition setDimension :: "nat \<Rightarrow> real \<Rightarrow> nat" where
  "setDimension dflt v =
     (let n = integerPart v mod 2 ^ 32
      in if n \<le> 2147483647 then nat n else dflt)"

record CanvasManager =
  width :: real
  height :: real
  dpr :: real
  canvas_width :: nat
  canvas_height :: nat
  style_width :: css_length
  style_height :: css_length
  ctx_calls :: "ctx_call list"
  performanceSettings :: PerformanceSettings

text \<open>
  \<^verbatim>\<open>resize()\<close>: the bounding rectangle of the host element is the argument. The
  assignments are made in the order of the source; the later ones read the fields the
  earlier ones have set. The two assignments to the canvas element store the converted
  value, and the call of \<^verbatim>\<open>ctx.scale\<close> is appended to the calls of the context.
\<close>

definition resize :: "DOMRect \<Rightarrow> CanvasManager \<Rightarrow> CanvasManager" where
  "resize rect cm =
     (let cm1 = cm\<lparr> width := rect_width rect \<rparr>;
          cm2 = cm1\<lparr> height := rect_height rect \<rparr>;
          cm3 = cm2\<lparr> canvas_width := setDimension 300 (width cm2 * dpr cm2) \<rparr>;
          cm4 = cm3\<lparr> canvas_height := setDimension 150 (height cm3 * dpr cm3) \<rparr>;
          cm5 = cm4\<lparr> ctx_calls := ctx_calls cm4 @ [Scale (dpr cm4) (dpr cm4)] \<rparr>;
          cm6 = cm5\<lparr> style_width := Px (width cm5) \<rparr>
      in cm6\<lparr> style_height := Px (height cm6) \<rparr>)"

text \<open>
  A concrete canvas manager for the examples below: an 800 by 600 layout box at a device
  pixel ratio of 2, on a device with 8 cores, 8 GB and a viewport 1920 wide.
\<close>

definition exampleCanvas :: CanvasManager where
  "exampleCanvas =
     \<lparr> width = 800, height = 600, dpr = 2, canvas_width = 1600, canvas_height = 1200,
       style_width = Px 800, style_height = Px 600, ctx_calls = [Scale 2 2],
       performanceSettings = detectPerformance (Number 8) (Number 8) (Number 1920) \<rparr>"

subsection \<open>RocketCurve\<close>

record CurvePoint =
  pt_x :: real
  pt_y :: real
  multiplier :: real
  time :: real

record RocketCurve =
  points :: "CurvePoint list"
  animationId :: "nat option"
  isAnimating :: bool

text \<open>The constructor: an empty buffer, no animation request.\<close>

definition RocketCurve_new :: RocketCurve where
  "RocketCurve_new = \<lparr> points = [], animationId = None, isAnimating = False \<rparr>"

text \<open>
  \<^verbatim>\<open>stopAnimation()\<close> clears the flag; the request it cancels is the host's, and
  \<open>animationId\<close> keeps its value. \<^verbatim>\<open>reset()\<close> empties the buffer and stops the animation.
\<close>

definition stopAnimation :: "RocketCurve \<Rightarrow> RocketCurve" where
  "stopAnimation c = c\<lparr> isAnimating := False \<rparr>"

definition reset :: "RocketCurve \<Rightarrow> RocketCurve" where
  "reset c = stopAnimation (c\<lparr> points := [] \<rparr>)"

text \<open>
  \<^verbatim>\<open>addPoint(time, multiplier)\<close>. Its first statements compute the point:
  \<^verbatim>\<open>Math.min\<close> bounds the scaled time by the width and the scaled multiplier by the
  height, and the object literal \<^verbatim>\<open>{ x, y, multiplier, time }\<close> is built.
\<close>

definition curvePoint :: "CanvasManager \<Rightarrow> real \<Rightarrow> real \<Rightarrow> CurvePoint" where
  "curvePoint cm t m =
     (let w = width cm; h = height cm;
          x = min ((t / 30) * w) w;
          y = h - min (((m - 1) / 10) * h) h
      in \<lparr> pt_x = x, pt_y = y, multiplier = m, time = t \<rparr>)"

text \<open>
  The point is pushed, and \<^verbatim>\<open>shift()\<close> drops the first element when the buffer has
  grown beyond 300.
\<close>

definition addPoint :: "CanvasManager \<Rightarrow> real \<Rightarrow> real \<Rightarrow> RocketCurve \<Rightarrow> RocketCurve" where
  "addPoint cm t m c =
     (let pushed = points c @ [curvePoint cm t m]
      in c\<lparr> points := (if length pushed > 300 then tl pushed else pushed) \<rparr>)"

text \<open>
  A sequence of \<^verbatim>\<open>addPoint\<close> calls, each with the canvas manager as it is at the time of
  the call (a resize may come between two calls).
\<close>

fun addPoints :: "(CanvasManager \<times> real \<times> real) list \<Rightarrow> RocketCurve \<Rightarrow> RocketCurve" where
  "addPoints [] c = c"
| "addPoints ((cm, t, m) # calls) c = addPoints calls (addPoint cm t m c)"

text \<open>
  The head marker's pulse factor in \<^verbatim>\<open>drawCurrentPoint()\<close>; \<open>now\<close> is the value of
  \<^verbatim>\<open>Date.now()\<close>, in milliseconds.
\<close>

definition pulse :: "real \<Rightarrow> real" where
  "pulse now = (let time = now / 500 in sin time * 0.3 + 0.7)"

text \<open>The radii of the two circles of the marker, as passed to \<^verbatim>\<open>ctx.arc\<close>.\<close>

definition outer_radius :: "real \<Rightarrow> real" where
  "outer_radius now = 6 * pulse now"

definition inner_radius :: "real \<Rightarrow> real" where
  "inner_radius now = 4 * pulse now"

subsection \<open>ExplosionParticles\<close>

text \<open>
  \<^verbatim>\<open>colors[i]\<close> is \<^verbatim>\<open>undefined\<close> outside the array: the colour of a particle is an option,
  \<open>None\<close> for \<^verbatim>\<open>undefined\<close>.
\<close>

record Particle =
  p_x :: real
  p_y :: real
  vx :: real
  vy :: real
  life :: real
  decay :: real
  p_size :: real
  color :: "string option"

record ExplosionParticles =
  particles :: "Particle list"
  isActive :: bool

definition colors :: "string list" where
  "colors = [''#ff6b6b'', ''#ffa500'', ''#ffff00'', ''#ff4757'', ''#ff3742'']"

text \<open>\<^verbatim>\<open>getRandomColor()\<close>, with the value \<open>r\<close> that \<^verbatim>\<open>Math.random()\<close> returns.\<close>

definition getRandomColor :: "real \<Rightarrow> string option" where
  "getRandomColor r =
     (let i = \<lfloor>r * real (length colors)\<rfloor>
      in if 0 \<le> i \<and> nat i < length colors then Some (colors ! nat i) else None)"

text \<open>
  \<^verbatim>\<open>Math.random()\<close> is a sequence \<open>rnd\<close> of draws. A particle takes five draws, in the
  order the object literal evaluates them: the particle of iteration \<open>i\<close> takes the draws
  \<open>5 * i\<close>, ..., \<open>5 * i + 4\<close>.
\<close>

definition newParticle :: "(nat \<Rightarrow> real) \<Rightarrow> real \<Rightarrow> real \<Rightarrow> nat \<Rightarrow> Particle" where
  "newParticle rnd x0 y0 i =
     \<lparr> p_x = x0,
       p_y = y0,
       vx = (rnd (5 * i) - 0.5) * 15,
       vy = (rnd (5 * i + 1) - 0.5) * 15,
       life = 1.0,
       decay = 0.015 + rnd (5 * i + 2) * 0.01,
       p_size = 2 + rnd (5 * i + 3) * 4,
       color = getRandomColor (rnd (5 * i + 4)) \<rparr>"

text \<open>The \<^verbatim>\<open>for\<close> loop of \<^verbatim>\<open>createParticles\<close>: \<open>i\<close> is the loop counter, \<open>ps\<close> the array.\<close>

function createParticles_loop ::
  "(nat \<Rightarrow> real) \<Rightarrow> real \<Rightarrow> real \<Rightarrow> nat \<Rightarrow> nat \<Rightarrow> Particle list \<Rightarrow> Particle list" where
  "createParticles_loop rnd x0 y0 n i ps =
     (if i < n then createParticles_loop rnd x0 y0 n (Suc i) (ps @ [newParticle rnd x0 y0 i])
      else ps)"
  by pat_completeness auto
termination
  by (relation "measure (\<lambda>(rnd, x0, y0, n, i, ps). n - i)") auto

definition createParticles ::
  "(nat \<Rightarrow> real) \<Rightarrow> CanvasManager \<Rightarrow> real \<Rightarrow> real \<Rightarrow> ExplosionParticles \<Rightarrow> ExplosionParticles" where
  "createParticles rnd cm x0 y0 e =
     (let n = particleCount (performanceSettings cm)
      in e\<lparr> particles := createParticles_loop rnd x0 y0 n 0 (particles e), isActive := True \<rparr>)"

text \<open>The constructor: an empty, inactive batch, then \<^verbatim>\<open>createParticles(x, y)\<close>.\<close>

definition ExplosionParticles_new ::
  "(nat \<Rightarrow> real) \<Rightarrow> CanvasManager \<Rightarrow> real \<Rightarrow> real \<Rightarrow> ExplosionParticles" where
  "ExplosionParticles_new rnd cm x0 y0 =
     createParticles rnd cm x0 y0 \<lparr> particles = [], isActive = False \<rparr>"

text \<open>
  The body of the \<^verbatim>\<open>forEach\<close> of \<^verbatim>\<open>update()\<close>: the position moves by the velocity before
  gravity and air resistance change the velocity.
\<close>

definition moveParticle :: "Particle \<Rightarrow> Particle" where
  "moveParticle p =
     p\<lparr> p_x := p_x p + vx p,
        p_y := p_y p + vy p,
        vy := vy p + 0.2,
        vx := vx p * 0.98,
        life := life p - decay p \<rparr>"

definition update :: "ExplosionParticles \<Rightarrow> ExplosionParticles" where
  "update e =
     (if \<not> isActive e then e
      else let e1 = e\<lparr> particles := map moveParticle (particles e) \<rparr>;
               e2 = e1\<lparr> particles := filter (\<lambda>particle. life particle > 0) (particles e1) \<rparr>
           in if length (particles e2) = 0 then e2\<lparr> isActive := False \<rparr> else e2)"

text \<open>The sum of the lives of the particles of a batch.\<close>

definition totalLife :: "ExplosionParticles \<Rightarrow> real" where
  "totalLife e = sum_list (map life (particles e))"

text \<open>
  A concrete batch for the examples below: the life of the first particle reaches exactly
  0 in the next step, the second particle is new.
\<close>

definition exampleBatch :: ExplosionParticles where
  "exampleBatch =
     \<lparr> particles =
         [\<lparr> p_x = 100, p_y = 50, vx = 3, vy = - 2, life = 0.02, decay = 0.02, p_size = 3,
            color = Some ''#ffa500'' \<rparr>,
          \<lparr> p_x = 100, p_y = 50, vx = - 1, vy = 4, life = 1, decay = 0.015, p_size = 5,
            color = Some ''#ff4757'' \<rparr>],
       isActive = True \<rparr>"

section \<open>The point buffer\<close>

lemma points_addPoint:
  "points (addPoint cm t m c) =
     (if length (points c) < 300 then points c @ [curvePoint cm t m]
      else tl (points c @ [curvePoint cm t m]))"
  by (simp add: addPoint_def Let_def)

lemma length_addPoint:
  "length (points c) \<le> 300 \<Longrightarrow> length (points (addPoint cm t m c)) \<le> 300"
  by (simp add: points_addPoint)

text \<open>
  From a buffer within the capacity, a sequence of calls leaves the last 300 elements of
  the old buffer followed by the new points.
\<close>

lemma points_addPoints:
  "length (points c) \<le> 300 \<Longrightarrow>
   points (addPoints calls c) =
     drop (length (points c) + length calls - 300)
          (points c @ map (\<lambda>(cm, t, m). curvePoint cm t m) calls)"
proof (induction calls arbitrary: c)
  case Nil
  then show ?case by simp
next
  case (Cons a calls)
  obtain cm t m where a: "a = (cm, t, m)" by (cases a)
  let ?c' = "addPoint cm t m c"
  let ?f = "\<lambda>(cm, t, m). curvePoint cm t m"
  have len: "length (points ?c') \<le> 300" using Cons.prems by (rule length_addPoint)
  have "points (addPoints (a # calls) c) = points (addPoints calls ?c')"
    by (simp add: a)
  also have "\<dots> = drop (length (points ?c') + length calls - 300) (points ?c' @ map ?f calls)"
    using len by (rule Cons.IH)
  also have "\<dots> = drop (length (points c) + length (a # calls) - 300) (points c @ map ?f (a # calls))"
  proof (cases "length (points c) < 300")
    case True
    then show ?thesis by (simp add: points_addPoint a)
  next
    case False
    with Cons.prems have l: "length (points c) = 300" by simp
    then have "points ?c' = tl (points c) @ [curvePoint cm t m]"
      by (cases "points c") (simp_all add: points_addPoint)
    then show ?thesis using l by (cases "points c") (simp_all add: a)
  qed
  finally show ?case .
qed

text \<open>
  Claim C1. After any sequence of \<^verbatim>\<open>addPoint\<close> calls on a new \<open>RocketCurve\<close>, or on one
  that has been reset, the buffer holds at most 300 points: it is the list of the last
  \<open>min n 300\<close> of the \<open>n\<close> inserted points, in the order of insertion (the oldest points
  are the ones dropped). The statement is for every sequence of calls, hence for the
  buffer after each call of a longer sequence.
\<close>

theorem addPoints_keeps_last_300:
  "points (addPoints calls RocketCurve_new) =
     drop (length calls - 300) (map (\<lambda>(cm, t, m). curvePoint cm t m) calls)
   \<and> points (addPoints calls (reset c)) =
     drop (length calls - 300) (map (\<lambda>(cm, t, m). curvePoint cm t m) calls)
   \<and> length (points (addPoints calls RocketCurve_new)) = min (length calls) 300
   \<and> length (points (addPoints calls (reset c))) = min (length calls) 300
   \<and> length (points (addPoints calls RocketCurve_new)) \<le> 300
   \<and> length (points (addPoints calls (reset c))) \<le> 300"
proof -
  have buffer: "points (addPoints calls c0) =
     drop (length calls - 300) (map (\<lambda>(cm, t, m). curvePoint cm t m) calls)"
    if "points c0 = []" for c0
    using points_addPoints [of c0 calls] that by simp
  have "points RocketCurve_new = []" by (simp add: RocketCurve_new_def)
  moreover have "points (reset c) = []" by (simp add: reset_def stopAnimation_def)
  ultimately have "points (addPoints calls RocketCurve_new) =
     drop (length calls - 300) (map (\<lambda>(cm, t, m). curvePoint cm t m) calls)"
    and "points (addPoints calls (reset c)) =
     drop (length calls - 300) (map (\<lambda>(cm, t, m). curvePoint cm t m) calls)"
    by (simp_all only: buffer)
  then show ?thesis by auto
qed

lemma last_points_addPoint:
  "points (addPoint cm t m c) \<noteq> [] \<and> last (points (addPoint cm t m c)) = curvePoint cm t m"
proof (cases "points c")
  case Nil
  then show ?thesis by (simp add: points_addPoint)
next
  case (Cons a as)
  then show ?thesis by (cases as) (simp_all add: points_addPoint)
qed

section \<open>The coordinate mapping\<close>

text \<open>
  Claim C2. On a surface of width \<open>w\<close> and height \<open>h\<close> (a layout box: neither is
  negative), \<^verbatim>\<open>addPoint(0, 1)\<close> stores the point \<open>(0, h)\<close>, \<^verbatim>\<open>addPoint(30, 11)\<close> stores
  \<open>(w, 0)\<close>, and for every time above 30 and multiplier above 11 the stored point has
  \<open>x = w\<close> and \<open>y = 0\<close>, as the point of \<^verbatim>\<open>addPoint(30, 11)\<close> has. The stored point is the
  last element of the buffer after the call, whatever the buffer was before.
\<close>

theorem addPoint_clamped_at_upper_ends:
  assumes "0 \<le> width cm" and "0 \<le> height cm"
  shows "last (points (addPoint cm 0 1 c)) =
           \<lparr> pt_x = 0, pt_y = height cm, multiplier = 1, time = 0 \<rparr>
       \<and> last (points (addPoint cm 30 11 c)) =
           \<lparr> pt_x = width cm, pt_y = 0, multiplier = 11, time = 30 \<rparr>
       \<and> (30 < t \<and> 11 < m \<longrightarrow>
            pt_x (last (points (addPoint cm t m c))) = width cm
          \<and> pt_y (last (points (addPoint cm t m c))) = 0)"
proof -
  have a: "last (points (addPoint cm 0 1 c)) =
           \<lparr> pt_x = 0, pt_y = height cm, multiplier = 1, time = 0 \<rparr>"
    using assms by (simp add: last_points_addPoint curvePoint_def)
  have b: "last (points (addPoint cm 30 11 c)) =
           \<lparr> pt_x = width cm, pt_y = 0, multiplier = 11, time = 30 \<rparr>"
    by (simp add: last_points_addPoint curvePoint_def)
  have c: "pt_x (last (points (addPoint cm t m c))) = width cm
          \<and> pt_y (last (points (addPoint cm t m c))) = 0" if t: "30 < t" and m: "11 < m"
  proof -
    have "1 * width cm \<le> (t / 30) * width cm"
      using t assms(1) by (intro mult_right_mono) simp_all
    moreover have "1 * height cm \<le> ((m - 1) / 10) * height cm"
      using m assms(2) by (intro mult_right_mono) simp_all
    ultimately have "min ((t / 30) * width cm) (width cm) = width cm"
      and "min (((m - 1) / 10) * height cm) (height cm) = height cm"
      by simp_all
    then show ?thesis
      by (simp add: last_points_addPoint curvePoint_def Let_def)
  qed
  from a b c show ?thesis by blast
qed

text \<open>The statement at the 800 by 600 surface, with the sample \<open>(45, 12)\<close> beyond both ends.\<close>

theorem addPoint_clamped_at_upper_ends_example:
  "last (points (addPoint exampleCanvas 0 1 RocketCurve_new)) =
           \<lparr> pt_x = 0, pt_y = 600, multiplier = 1, time = 0 \<rparr>
   \<and> last (points (addPoint exampleCanvas 30 11 RocketCurve_new)) =
           \<lparr> pt_x = 800, pt_y = 0, multiplier = 11, time = 30 \<rparr>
   \<and> pt_x (last (points (addPoint exampleCanvas 45 12 RocketCurve_new))) = 800
   \<and> pt_y (last (points (addPoint exampleCanvas 45 12 RocketCurve_new))) = 0"
  using addPoint_clamped_at_upper_ends
    [where cm = exampleCanvas and t = 45 and m = 12 and c = RocketCurve_new]
  by (simp add: exampleCanvas_def)

text \<open>
  Claim C6 says that a sample with a negative time or a multiplier below 1 is stored
  with \<open>x\<close> within \<open>[0, width]\<close> and \<open>y\<close> within \<open>[0, height]\<close>. It is not: \<^verbatim>\<open>addPoint\<close> bounds
  the two scaled values from above only. On the 800 by 600 surface the sample
  \<open>(- 30, 0)\<close> is stored at \<open>x = - 800\<close>, left of the surface, and \<open>y = 660\<close>, below it.
\<close>

theorem addPoint_invalid_sample_out_of_range:
  "pt_x (last (points (addPoint exampleCanvas (- 30) 0 RocketCurve_new))) = - 800
   \<and> pt_y (last (points (addPoint exampleCanvas (- 30) 0 RocketCurve_new))) = 660"
  by (simp add: last_points_addPoint curvePoint_def exampleCanvas_def)

text \<open>
  Claim C6, amended. Every sample, an invalid one too, is stored and not rejected: it
  becomes the last point of the buffer. Its coordinates are bounded at the upper ends
  of the mapping only: \<open>x\<close> is at most the width and \<open>y\<close> is at least 0. The lower ends
  are open: a negative time on a surface of positive width gives a negative \<open>x\<close>, and a
  multiplier below 1 on a surface of positive height gives a \<open>y\<close> above the height.
\<close>

theorem addPoint_invalid_sample_stored_upper_bounds_only:
  "points (addPoint cm t m c) \<noteq> []
   \<and> last (points (addPoint cm t m c)) = curvePoint cm t m
   \<and> pt_x (curvePoint cm t m) \<le> width cm
   \<and> 0 \<le> pt_y (curvePoint cm t m)
   \<and> (t < 0 \<and> 0 < width cm \<longrightarrow> pt_x (curvePoint cm t m) < 0)
   \<and> (m < 1 \<and> 0 < height cm \<longrightarrow> height cm < pt_y (curvePoint cm t m))"
proof -
  have "t < 0 \<Longrightarrow> 0 < width cm \<Longrightarrow> t / 30 * width cm < 0"
    by (simp add: mult_less_0_iff)
  moreover have "m < 1 \<Longrightarrow> 0 < height cm \<Longrightarrow> (m - 1) / 10 * height cm < 0"
    by (simp add: mult_less_0_iff)
  ultimately show ?thesis
    using last_points_addPoint [of cm t m c]
    by (auto simp add: curvePoint_def Let_def min_def)
qed

theorem addPoint_invalid_sample_stored_upper_bounds_only_example:
  "pt_x (curvePoint exampleCanvas (- 30) 0) < 0
   \<and> 600 < pt_y (curvePoint exampleCanvas (- 30) 0)
   \<and> pt_x (curvePoint exampleCanvas (- 30) 0) \<le> 800
   \<and> 0 \<le> pt_y (curvePoint exampleCanvas (- 30) 0)"
  using addPoint_invalid_sample_stored_upper_bounds_only
    [where cm = exampleCanvas and t = "- 30" and m = 0 and c = RocketCurve_new]
  by (simp add: exampleCanvas_def)

section \<open>The performance profile\<close>

text \<open>
  Claim C3. \<open>detectPerformance\<close> is a function of the three device signals alone, so equal
  signals give equal profiles. For signals that are numbers, the profile is the low-end
  one (10 particles, 30 frames per second, shadows and blur disabled) if there are
  fewer than 4 cores, or less than 2 GB, or a viewport narrower than 768, and the
  high-end one (20, 60, both enabled) otherwise. The same holds for every triple of
  signals when \<open><\<close> is read as the comparison of the source.
\<close>

theorem detectPerformance_thresholds:
  "detectPerformance (Number cores) (Number memory) (Number w) =
     (if cores < 4 \<or> memory < 2 \<or> w < 768 then lowEnd else highEnd)
   \<and> detectPerformance hc dm iw =
     (if js_lt hc 4 \<or> js_lt dm 2 \<or> js_lt iw 768 then lowEnd else highEnd)
   \<and> (hc = hc' \<and> dm = dm' \<and> iw = iw' \<longrightarrow>
        detectPerformance hc dm iw = detectPerformance hc' dm' iw')"
  by (simp add: detectPerformance_def lowEnd_def highEnd_def)

text \<open>One signal below its threshold at a time, then all three exactly at the thresholds.\<close>

theorem detectPerformance_thresholds_example:
  "detectPerformance (Number 2) (Number 8) (Number 1920) = lowEnd
   \<and> detectPerformance (Number 8) (Number 1) (Number 1920) = lowEnd
   \<and> detectPerformance (Number 8) (Number 8) (Number 767) = lowEnd
   \<and> detectPerformance (Number 4) (Number 2) (Number 768) = highEnd"
  using detectPerformance_thresholds
      [of 2 8 1920 "Number 2" "Number 8" "Number 1920" "Number 2" "Number 8" "Number 1920"]
    detectPerformance_thresholds [of 8 1 1920]
    detectPerformance_thresholds [of 8 8 767]
    detectPerformance_thresholds [of 4 2 768]
  by simp

text \<open>
  Claim C7 says that a missing device signal gives the low-end profile. It does not: on
  a device with 8 cores and a viewport 1920 wide whose \<^verbatim>\<open>navigator.deviceMemory\<close> is
  \<^verbatim>\<open>undefined\<close>, the profile is the high-end one.
\<close>

theorem detectPerformance_missing_memory_high_end:
  "detectPerformance (Number 8) Undefined (Number 1920) =
     \<lparr> particleCount = 20, frameRate = 60, enableShadows = True, enableBlur = True \<rparr>"
  by (simp add: detectPerformance_def)

text \<open>
  Claim C7, amended. With a device signal missing, \<open>detectPerformance\<close> still returns a
  profile, and the missing signal counts as not below its threshold: the profile is
  the low-end one exactly when one of the other signals is below its threshold, and the
  high-end one otherwise, also when all three signals are missing.
\<close>

theorem detectPerformance_missing_signal_ignored:
  "detectPerformance Undefined dm iw = (if js_lt dm 2 \<or> js_lt iw 768 then lowEnd else highEnd)
   \<and> detectPerformance hc Undefined iw = (if js_lt hc 4 \<or> js_lt iw 768 then lowEnd else highEnd)
   \<and> detectPerformance hc dm Undefined = (if js_lt hc 4 \<or> js_lt dm 2 then lowEnd else highEnd)
   \<and> detectPerformance Undefined Undefined Undefined = highEnd"
  by (simp add: detectPerformance_def lowEnd_def highEnd_def)

section \<open>The pulse of the head marker\<close>

lemma cos_one_positive: "0 < cos (1::real)"
proof -
  have "\<bar>sin (1 / 2 :: real)\<bar> \<le> 1 / 2"
    using abs_sin_x_le_abs_x [of "1 / 2"] by simp
  then have "(sin (1 / 2 :: real))\<^sup>2 \<le> (1 / 2)\<^sup>2"
    by (metis abs_le_square_iff abs_of_pos half_gt_zero_iff zero_less_one)
  moreover have "cos (1::real) = 1 - 2 * (sin (1 / 2))\<^sup>2"
    using cos_double_sin [of "1 / 2 :: real"] by simp
  ultimately show ?thesis by (simp add: power2_eq_square)
qed

lemma sin_four_negative: "sin (4::real) < 0"
proof -
  have s1: "0 < sin (1::real)" by (rule sin_gt_zero_02) simp_all
  have "sin (2::real) = 2 * sin 1 * cos 1" using sin_double [of "1::real"] by simp
  with s1 cos_one_positive have s2: "0 < sin (2::real)" by simp
  have "sin (4::real) = 2 * sin 2 * cos 2" using sin_double [of "2::real"] by simp
  moreover have "sin (2::real) * cos 2 < 0"
    using s2 cos_two_less_zero by (simp only: mult_pos_neg)
  ultimately show ?thesis by (simp add: mult.commute)
qed

lemma pulse_no_shorter_period:
  "\<not> (\<exists>p. 0 < p \<and> p < 2 * pi * 500 \<and> (\<forall>t. pulse (t + p) = pulse t))"
proof
  assume "\<exists>p. 0 < p \<and> p < 2 * pi * 500 \<and> (\<forall>t. pulse (t + p) = pulse t)"
  then obtain p where p: "0 < p" "p < 2 * pi * 500" and per: "\<And>t. pulse (t + p) = pulse t"
    by blast
  have "pulse (250 * pi + p) = pulse (250 * pi)" by (rule per)
  moreover have "sin ((250 * pi + p) / 500) = sin (pi / 2 + p / 500)"
    by (simp add: add_divide_distrib)
  moreover have "sin (250 * pi / 500) = sin (pi / 2)" by simp
  ultimately have "sin (pi / 2 + p / 500) = 1"
    unfolding pulse_def Let_def by simp
  then have "cos (p / 500) = 1" by (simp add: sin_add)
  then obtain i :: int where i: "p / 500 = of_int i * 2 * pi"
    unfolding cos_one_2pi_int by blast
  from p(1) i have "0 < real_of_int i * (2 * pi)" by (simp add: mult.assoc)
  then have "0 < i" by (simp add: zero_less_mult_iff)
  from p(2) i have "real_of_int i * (2 * pi) < 1 * (2 * pi)" by (simp add: mult.assoc)
  then have "real_of_int i < 1" by (simp add: mult_less_cancel_right)
  then have "i < 1" by simp
  with \<open>0 < i\<close> show False by simp
qed

text \<open>
  Claim C8 says that the pulse factor stays within \<open>[0.7, 1.0]\<close>. It does not: 0.7 is the
  centre of the oscillation, not its lower end. At \<^verbatim>\<open>Date.now() = 2000\<close> the sine is taken
  at 4 radians, where it is negative, and the factor is below 0.7.
\<close>

theorem pulse_below_70_percent: "pulse 2000 < 0.7"
  using sin_four_negative by (simp add: pulse_def)

text \<open>
  Claim C8, amended. The pulse factor is a sinusoidal function of the wall-clock time
  with period \<open>2 * pi * 500\<close> milliseconds (\<open>2 * pi * 0.5\<close> seconds, and no shorter period),
  and it stays within \<open>[0.4, 1.0]\<close> for all times: the radius varies between 40% and 100%
  of its base size, 6 for the outer circle and 4 for the inner one. Both ends are
  reached.
\<close>

theorem pulse_range_and_period:
  "0.4 \<le> pulse now \<and> pulse now \<le> 1
   \<and> pulse (now + 2 * pi * 500) = pulse now
   \<and> \<not> (\<exists>p. 0 < p \<and> p < 2 * pi * 500 \<and> (\<forall>t. pulse (t + p) = pulse t))
   \<and> pulse (250 * pi) = 1 \<and> pulse (750 * pi) = 0.4
   \<and> outer_radius now = 6 * pulse now \<and> inner_radius now = 4 * pulse now"
proof -
  have "- 1 \<le> sin (now / 500)" "sin (now / 500) \<le> 1" by simp_all
  then have a: "0.4 \<le> pulse now \<and> pulse now \<le> 1" unfolding pulse_def Let_def by linarith
  have "sin ((now + 2 * pi * 500) / 500) = sin (now / 500 + 2 * pi)"
    by (simp add: add_divide_distrib)
  then have b: "pulse (now + 2 * pi * 500) = pulse now" by (simp add: pulse_def)
  have "sin (250 * pi / 500) = sin (pi / 2)" by simp
  then have c: "pulse (250 * pi) = 1" unfolding pulse_def Let_def by simp
  have "sin (750 * pi / 500) = sin (3 / 2 * pi)" by simp
  then have d: "pulse (750 * pi) = 0.4" unfolding pulse_def Let_def sin_3over2_pi by simp
  from a b c d pulse_no_shorter_period show ?thesis
    by (simp add: outer_radius_def inner_radius_def)
qed

section \<open>Resizing\<close>

lemma setDimension_in_range:
  assumes "0 \<le> v" and "v < 2 ^ 31"
  shows "setDimension dflt v = nat \<lfloor>v\<rfloor>"
proof -
  have lo: "0 \<le> \<lfloor>v\<rfloor>" using assms(1) by simp
  have "\<lfloor>v\<rfloor> < 2 ^ 31" using assms(2) by (simp add: floor_less_iff)
  then have hi: "\<lfloor>v\<rfloor> < 2147483648" by simp
  from lo hi have "\<lfloor>v\<rfloor> mod 2 ^ 32 = \<lfloor>v\<rfloor>" by simp
  with assms(1) hi show ?thesis by (simp add: setDimension_def integerPart_def)
qed

lemma nat_floor_eq_iff_int:
  assumes "0 \<le> v"
  shows "real (nat \<lfloor>v\<rfloor>) = v \<longleftrightarrow> v \<in> \<int>"
proof
  assume eq: "real (nat \<lfloor>v\<rfloor>) = v"
  have "real (nat \<lfloor>v\<rfloor>) \<in> \<int>" by (rule Ints_of_nat)
  then show "v \<in> \<int>" by (simp only: eq)
next
  assume "v \<in> \<int>"
  then obtain k :: int where "v = of_int k" by (rule Ints_cases)
  then have "of_int \<lfloor>v\<rfloor> = v" by simp
  moreover have "0 \<le> \<lfloor>v\<rfloor>" using assms by simp
  ultimately show "real (nat \<lfloor>v\<rfloor>) = v" by simp
qed

lemma width_resize: "width (resize rect cm) = rect_width rect"
  by (simp add: resize_def Let_def)

lemma height_resize: "height (resize rect cm) = rect_height rect"
  by (simp add: resize_def Let_def)

lemma dpr_resize: "dpr (resize rect cm) = dpr cm"
  by (simp add: resize_def Let_def)

lemma canvas_width_resize:
  "canvas_width (resize rect cm) = setDimension 300 (rect_width rect * dpr cm)"
  by (simp add: resize_def Let_def)

lemma canvas_height_resize:
  "canvas_height (resize rect cm) = setDimension 150 (rect_height rect * dpr cm)"
  by (simp add: resize_def Let_def)

text \<open>
  Claim C9 says that after each \<^verbatim>\<open>resize()\<close> the backing-store dimensions equal the
  logical dimensions times the device pixel ratio. They do not when a product has a
  fraction: with a layout box of 333.5 by 250.25 at a ratio of 1.5 the products are
  500.25 and 375.375, and the backing store is 500 by 375.
\<close>

theorem resize_backing_store_drops_fraction:
  "canvas_width (resize \<lparr> rect_width = 333.5, rect_height = 250.25 \<rparr> (exampleCanvas\<lparr> dpr := 1.5 \<rparr>)) = 500
   \<and> width (resize \<lparr> rect_width = 333.5, rect_height = 250.25 \<rparr> (exampleCanvas\<lparr> dpr := 1.5 \<rparr>))
       * dpr (resize \<lparr> rect_width = 333.5, rect_height = 250.25 \<rparr> (exampleCanvas\<lparr> dpr := 1.5 \<rparr>))
     = 500.25
   \<and> canvas_height (resize \<lparr> rect_width = 333.5, rect_height = 250.25 \<rparr> (exampleCanvas\<lparr> dpr := 1.5 \<rparr>)) = 375
   \<and> height (resize \<lparr> rect_width = 333.5, rect_height = 250.25 \<rparr> (exampleCanvas\<lparr> dpr := 1.5 \<rparr>))
       * dpr (resize \<lparr> rect_width = 333.5, rect_height = 250.25 \<rparr> (exampleCanvas\<lparr> dpr := 1.5 \<rparr>))
     = 375.375"
proof -
  have "setDimension 300 (500.25 :: real) = nat \<lfloor>500.25 :: real\<rfloor>"
    by (rule setDimension_in_range) simp_all
  moreover have "setDimension 150 (375.375 :: real) = nat \<lfloor>375.375 :: real\<rfloor>"
    by (rule setDimension_in_range) simp_all
  moreover have "\<lfloor>500.25 :: real\<rfloor> = 500" by (simp add: floor_eq_iff)
  moreover have "\<lfloor>375.375 :: real\<rfloor> = 375" by (simp add: floor_eq_iff)
  moreover have "(333.5 :: real) * 1.5 = 500.25" "(250.25 :: real) * 1.5 = 375.375" by simp_all
  ultimately show ?thesis
    by (simp add: width_resize height_resize dpr_resize canvas_width_resize canvas_height_resize
        exampleCanvas_def)
qed

text \<open>
  Claim C9, amended. Two calls of \<^verbatim>\<open>resize()\<close> in succession with the same bounding
  rectangle give the same logical width and height, those of the rectangle, and the
  same backing-store dimensions. After each call a backing-store dimension is the
  integer part of the logical dimension times the device pixel ratio, when that product
  is in \<open>[0, 2^31)\<close>; it equals the product exactly when the product is a whole number.
\<close>

theorem resize_twice_same_dimensions_integer_backing_store:
  "width (resize rect cm) = rect_width rect
   \<and> height (resize rect cm) = rect_height rect
   \<and> width (resize rect (resize rect cm)) = width (resize rect cm)
   \<and> height (resize rect (resize rect cm)) = height (resize rect cm)
   \<and> canvas_width (resize rect (resize rect cm)) = canvas_width (resize rect cm)
   \<and> canvas_height (resize rect (resize rect cm)) = canvas_height (resize rect cm)
   \<and> (0 \<le> width (resize rect cm) * dpr (resize rect cm)
        \<and> width (resize rect cm) * dpr (resize rect cm) < 2 ^ 31 \<longrightarrow>
          canvas_width (resize rect cm) = nat \<lfloor>width (resize rect cm) * dpr (resize rect cm)\<rfloor>
        \<and> (real (canvas_width (resize rect cm)) = width (resize rect cm) * dpr (resize rect cm)
             \<longleftrightarrow> width (resize rect cm) * dpr (resize rect cm) \<in> \<int>))
   \<and> (0 \<le> height (resize rect cm) * dpr (resize rect cm)
        \<and> height (resize rect cm) * dpr (resize rect cm) < 2 ^ 31 \<longrightarrow>
          canvas_height (resize rect cm) = nat \<lfloor>height (resize rect cm) * dpr (resize rect cm)\<rfloor>
        \<and> (real (canvas_height (resize rect cm)) = height (resize rect cm) * dpr (resize rect cm)
             \<longleftrightarrow> height (resize rect cm) * dpr (resize rect cm) \<in> \<int>))"
proof -
  have w: "canvas_width (resize rect cm) = nat \<lfloor>rect_width rect * dpr cm\<rfloor>
        \<and> (real (canvas_width (resize rect cm)) = rect_width rect * dpr cm
             \<longleftrightarrow> rect_width rect * dpr cm \<in> \<int>)"
    if "0 \<le> rect_width rect * dpr cm" and "rect_width rect * dpr cm < 2 ^ 31"
    using setDimension_in_range [OF that, of 300] nat_floor_eq_iff_int [OF that(1)]
    by (simp add: canvas_width_resize)
  have h: "canvas_height (resize rect cm) = nat \<lfloor>rect_height rect * dpr cm\<rfloor>
        \<and> (real (canvas_height (resize rect cm)) = rect_height rect * dpr cm
             \<longleftrightarrow> rect_height rect * dpr cm \<in> \<int>)"
    if "0 \<le> rect_height rect * dpr cm" and "rect_height rect * dpr cm < 2 ^ 31"
    using setDimension_in_range [OF that, of 150] nat_floor_eq_iff_int [OF that(1)]
    by (simp add: canvas_height_resize)
  have same: "canvas_width (resize rect (resize rect cm)) = canvas_width (resize rect cm)"
    "canvas_height (resize rect (resize rect cm)) = canvas_height (resize rect cm)"
    by (simp_all add: canvas_width_resize canvas_height_resize dpr_resize)
  from w h same show ?thesis
    unfolding width_resize height_resize dpr_resize by blast
qed

text \<open>
  The statement at the 800 by 600 layout box and a ratio of 2, where the products are
  whole numbers: the backing store is 1600 by 1200, after the first call and after the
  second.
\<close>

theorem resize_twice_same_dimensions_integer_backing_store_example:
  "width (resize \<lparr> rect_width = 800, rect_height = 600 \<rparr> exampleCanvas) = 800
   \<and> height (resize \<lparr> rect_width = 800, rect_height = 600 \<rparr> exampleCanvas) = 600
   \<and> canvas_width (resize \<lparr> rect_width = 800, rect_height = 600 \<rparr> exampleCanvas) = 1600
   \<and> canvas_height (resize \<lparr> rect_width = 800, rect_height = 600 \<rparr> exampleCanvas) = 1200
   \<and> canvas_width (resize \<lparr> rect_width = 800, rect_height = 600 \<rparr>
        (resize \<lparr> rect_width = 800, rect_height = 600 \<rparr> exampleCanvas)) = 1600
   \<and> canvas_height (resize \<lparr> rect_width = 800, rect_height = 600 \<rparr>
        (resize \<lparr> rect_width = 800, rect_height = 600 \<rparr> exampleCanvas)) = 1200"
proof -
  let ?r = "\<lparr> rect_width = 800, rect_height = 600 \<rparr>"
  have d: "dpr (resize ?r exampleCanvas) = 2" "width (resize ?r exampleCanvas) = 800"
    "height (resize ?r exampleCanvas) = 600"
    by (simp_all add: dpr_resize width_resize height_resize exampleCanvas_def)
  from resize_twice_same_dimensions_integer_backing_store [of ?r exampleCanvas]
  show ?thesis unfolding d by simp
qed

section \<open>The particle batch\<close>

subsection \<open>Construction\<close>

lemma createParticles_loop_eq:
  "createParticles_loop rnd x0 y0 n i ps = ps @ map (newParticle rnd x0 y0) [i..<n]"
proof (induction rnd x0 y0 n i ps rule: createParticles_loop.induct)
  case (1 rnd x0 y0 n i ps)
  show ?case
  proof (cases "i < n")
    case True
    then have "createParticles_loop rnd x0 y0 n i ps =
        createParticles_loop rnd x0 y0 n (Suc i) (ps @ [newParticle rnd x0 y0 i])"
      by (simp del: createParticles_loop.simps add: createParticles_loop.simps [of rnd x0 y0 n i ps])
    also have "\<dots> = (ps @ [newParticle rnd x0 y0 i]) @ map (newParticle rnd x0 y0) [Suc i..<n]"
      using True by (rule "1.IH")
    also have "\<dots> = ps @ map (newParticle rnd x0 y0) [i..<n]"
      using True by (simp add: upt_conv_Cons)
    finally show ?thesis .
  next
    case False
    then show ?thesis by simp
  qed
qed

lemma particles_new:
  "particles (ExplosionParticles_new rnd cm x0 y0) =
     map (newParticle rnd x0 y0) [0..<particleCount (performanceSettings cm)]"
  by (simp add: ExplosionParticles_new_def createParticles_def createParticles_loop_eq
      del: createParticles_loop.simps)

lemma isActive_new: "isActive (ExplosionParticles_new rnd cm x0 y0)"
  by (simp add: ExplosionParticles_new_def createParticles_def del: createParticles_loop.simps)

lemma getRandomColor_palette:
  assumes "0 \<le> r" and "r < 1"
  shows "getRandomColor r \<in> Some ` set colors"
proof -
  have len: "length colors = 5" by (simp add: colors_def)
  have "0 \<le> r * 5" using assms by simp
  then have lo: "0 \<le> \<lfloor>r * 5\<rfloor>" by simp
  have "r * 5 < 5" using assms by simp
  then have hi: "\<lfloor>r * 5\<rfloor> < 5" by (simp add: floor_less_iff)
  from lo hi have "nat \<lfloor>r * 5\<rfloor> < 5" by linarith
  then have n: "nat \<lfloor>r * 5\<rfloor> < length colors" by (simp only: len)
  then have "colors ! nat \<lfloor>r * 5\<rfloor> \<in> set colors" by (rule nth_mem)
  with lo n show ?thesis by (simp add: getRandomColor_def len)
qed

text \<open>
  Claim C4. For every origin and every performance profile, with the draws of
  \<^verbatim>\<open>Math.random()\<close> in \<open>[0, 1)\<close>, the constructor spawns exactly \<open>particleCount\<close> particles
  and leaves the batch active. Each particle is at the origin with life exactly 1, both
  velocity components in \<open>[- 7.5, 7.5)\<close>, decay rate in \<open>[0.015, 0.025)\<close>, radius in
  \<open>[2, 6)\<close> and a colour of the palette of five.
\<close>

theorem ExplosionParticles_new_batch:
  assumes rnd: "\<forall>k. 0 \<le> rnd k \<and> rnd k < 1"
  shows "length (particles (ExplosionParticles_new rnd cm x0 y0)) =
           particleCount (performanceSettings cm)
       \<and> isActive (ExplosionParticles_new rnd cm x0 y0)
       \<and> (\<forall>p \<in> set (particles (ExplosionParticles_new rnd cm x0 y0)).
            life p = 1 \<and> p_x p = x0 \<and> p_y p = y0
          \<and> - 7.5 \<le> vx p \<and> vx p < 7.5
          \<and> - 7.5 \<le> vy p \<and> vy p < 7.5
          \<and> 0.015 \<le> decay p \<and> decay p < 0.025
          \<and> 2 \<le> p_size p \<and> p_size p < 6
          \<and> color p \<in> Some ` set colors)"
proof -
  have one: "life p = 1 \<and> p_x p = x0 \<and> p_y p = y0
          \<and> - 7.5 \<le> vx p \<and> vx p < 7.5
          \<and> - 7.5 \<le> vy p \<and> vy p < 7.5
          \<and> 0.015 \<le> decay p \<and> decay p < 0.025
          \<and> 2 \<le> p_size p \<and> p_size p < 6
          \<and> color p \<in> Some ` set colors" if "p = newParticle rnd x0 y0 i" for p i
  proof -
    have r: "0 \<le> rnd (5 * i)" "rnd (5 * i) < 1" "0 \<le> rnd (5 * i + 1)" "rnd (5 * i + 1) < 1"
      "0 \<le> rnd (5 * i + 2)" "rnd (5 * i + 2) < 1" "0 \<le> rnd (5 * i + 3)" "rnd (5 * i + 3) < 1"
      "0 \<le> rnd (5 * i + 4)" "rnd (5 * i + 4) < 1"
      using rnd by simp_all
    have c: "getRandomColor (rnd (5 * i + 4)) \<in> Some ` set colors"
      using r(9,10) by (rule getRandomColor_palette)
    show ?thesis using r(1-8) c unfolding that newParticle_def by simp
  qed
  show ?thesis
    using one by (auto simp add: particles_new isActive_new)
qed

text \<open>
  The statement with every draw 1/2, on the example canvas (a high-end profile: 20
  particles).
\<close>

theorem ExplosionParticles_new_batch_example:
  "length (particles (ExplosionParticles_new (\<lambda>k. 1 / 2) exampleCanvas 100 50)) = 20
   \<and> isActive (ExplosionParticles_new (\<lambda>k. 1 / 2) exampleCanvas 100 50)
   \<and> life (hd (particles (ExplosionParticles_new (\<lambda>k. 1 / 2) exampleCanvas 100 50))) = 1"
proof -
  let ?e = "ExplosionParticles_new (\<lambda>k. 1 / 2) exampleCanvas 100 50"
  have r: "\<forall>k::nat. 0 \<le> (1 / 2 :: real) \<and> (1 / 2 :: real) < 1" by simp
  note t = ExplosionParticles_new_batch
    [where rnd = "\<lambda>k. 1 / 2" and cm = exampleCanvas and ?x0.0 = 100 and ?y0.0 = 50, OF r]
  have n: "particleCount (performanceSettings exampleCanvas) = 20"
    by (simp add: exampleCanvas_def detectPerformance_def)
  from t n have l: "length (particles ?e) = 20" by simp
  then have "particles ?e \<noteq> []" by auto
  then have "hd (particles ?e) \<in> set (particles ?e)" by (rule hd_in_set)
  with t have "life (hd (particles ?e)) = 1" by blast
  with t l show ?thesis by blast
qed

subsection \<open>Steps\<close>

lemma update_inactive: "\<not> isActive e \<Longrightarrow> update e = e"
  by (simp add: update_def)

lemma particles_update:
  "isActive e \<Longrightarrow>
   particles (update e) = filter (\<lambda>particle. life particle > 0) (map moveParticle (particles e))"
  by (simp add: update_def Let_def)

lemma isActive_update:
  "isActive e \<Longrightarrow> isActive (update e) = (particles (update e) \<noteq> [])"
  by (simp add: update_def Let_def)

lemma update_empty_if_inactive:
  assumes "\<not> isActive e \<longrightarrow> particles e = []"
  shows "\<not> isActive (update e) \<longrightarrow> particles (update e) = []"
proof (cases "isActive e")
  case True
  then show ?thesis by (simp add: isActive_update)
next
  case False
  then show ?thesis using assms by (simp add: update_inactive)
qed

lemma reachable_empty_if_inactive:
  "\<not> isActive ((update ^^ n) (ExplosionParticles_new rnd cm x0 y0)) \<longrightarrow>
   particles ((update ^^ n) (ExplosionParticles_new rnd cm x0 y0)) = []"
proof (induction n)
  case 0
  show ?case by (simp add: isActive_new)
next
  case (Suc n)
  then show ?case using update_empty_if_inactive by simp
qed

lemma life_moveParticle: "life (moveParticle p) = life p - decay p"
  by (simp add: moveParticle_def)

lemma decay_moveParticle: "decay (moveParticle p) = decay p"
  by (simp add: moveParticle_def)

lemma update_bounds:
  assumes "\<forall>p \<in> set (particles e). 0.015 \<le> decay p \<and> 0 < life p \<and> life p \<le> b"
  shows "\<forall>p \<in> set (particles (update e)). 0.015 \<le> decay p \<and> 0 < life p \<and> life p \<le> b"
    and "isActive e \<Longrightarrow> \<forall>p \<in> set (particles (update e)). life p \<le> b - 0.015"
proof -
  show "\<forall>p \<in> set (particles (update e)). 0.015 \<le> decay p \<and> 0 < life p \<and> life p \<le> b"
  proof (cases "isActive e")
    case True
    then show ?thesis using assms
      by (auto simp add: particles_update life_moveParticle decay_moveParticle)
  next
    case False
    then show ?thesis using assms by (simp add: update_inactive)
  qed
  show "\<forall>p \<in> set (particles (update e)). life p \<le> b - 0.015" if "isActive e"
    using that assms
    by (auto simp add: particles_update life_moveParticle decay_moveParticle)
qed

lemma totalLife_update:
  assumes act: "isActive e" and ne: "particles e \<noteq> []"
    and pos: "\<forall>p \<in> set (particles e). 0 < decay p \<and> 0 < life p"
  shows "totalLife (update e) < totalLife e"
proof -
  let ?g = "\<lambda>p. if 0 < life p - decay p then life p - decay p else 0"
  have eq: "sum_list (map life (filter (\<lambda>particle. life particle > 0) (map moveParticle ps))) =
        sum_list (map ?g ps)" for ps
    by (induction ps) (simp_all add: life_moveParticle)
  have "sum_list (map ?g (particles e)) < sum_list (map life (particles e))"
    using ne
  proof (rule sum_list_strict_mono)
    fix p assume "p \<in> set (particles e)"
    with pos have "0 < decay p" "0 < life p" by simp_all
    then show "?g p < life p" by simp
  qed
  then show ?thesis
    using act by (simp add: totalLife_def particles_update eq)
qed

lemma reachable_bounds:
  assumes rnd: "\<forall>k. 0 \<le> rnd k \<and> rnd k < 1"
  shows "\<forall>p \<in> set (particles ((update ^^ n) (ExplosionParticles_new rnd cm x0 y0))).
           0.015 \<le> decay p \<and> 0 < life p \<and> life p \<le> 1 - real n * 0.015"
proof (induction n)
  case 0
  have "0.015 \<le> decay (newParticle rnd x0 y0 i) \<and> life (newParticle rnd x0 y0 i) = 1" for i
    using rnd by (simp add: newParticle_def)
  then show ?case by (auto simp add: particles_new)
next
  case (Suc n)
  let ?e = "(update ^^ n) (ExplosionParticles_new rnd cm x0 y0)"
  show ?case
  proof (cases "isActive ?e")
    case True
    have "1 - real n * 0.015 - 0.015 = 1 - real (Suc n) * 0.015"
      by (simp add: field_simps)
    with update_bounds(1) [OF Suc.IH] update_bounds(2) [OF Suc.IH True]
    show ?thesis by (simp del: of_nat_Suc)
  next
    case False
    with reachable_empty_if_inactive [of n rnd cm x0 y0]
    show ?thesis by (simp add: update_inactive)
  qed
qed

text \<open>
  Claim C5. Take any state reached from the constructor (draws in \<open>[0, 1)\<close>) by \<open>n\<close> calls
  of \<^verbatim>\<open>update()\<close>. If the batch is active and not empty, the next \<^verbatim>\<open>update()\<close> strictly
  decreases the sum of the lives of the particles. If the batch is active, the next
  \<^verbatim>\<open>update()\<close> makes it inactive exactly when it leaves it empty. Every decay rate is at
  least 0.015, so after 67 calls, and after any larger number, every particle has been
  removed and the batch is inactive.
\<close>

theorem update_decreases_life_and_ends:
  assumes rnd: "\<forall>k. 0 \<le> rnd k \<and> rnd k < 1"
  shows "(isActive ((update ^^ n) (ExplosionParticles_new rnd cm x0 y0))
          \<and> particles ((update ^^ n) (ExplosionParticles_new rnd cm x0 y0)) \<noteq> [] \<longrightarrow>
            totalLife (update ((update ^^ n) (ExplosionParticles_new rnd cm x0 y0)))
              < totalLife ((update ^^ n) (ExplosionParticles_new rnd cm x0 y0)))
       \<and> (isActive ((update ^^ n) (ExplosionParticles_new rnd cm x0 y0)) \<longrightarrow>
            (\<not> isActive (update ((update ^^ n) (ExplosionParticles_new rnd cm x0 y0)))
              \<longleftrightarrow> particles (update ((update ^^ n) (ExplosionParticles_new rnd cm x0 y0))) = []))
       \<and> (67 \<le> n \<longrightarrow>
            particles ((update ^^ n) (ExplosionParticles_new rnd cm x0 y0)) = []
          \<and> \<not> isActive ((update ^^ n) (ExplosionParticles_new rnd cm x0 y0)))"
proof -
  let ?e = "\<lambda>k. (update ^^ k) (ExplosionParticles_new rnd cm x0 y0)"
  note b = reachable_bounds [OF rnd, of _ cm x0 y0]
  have a: "totalLife (update (?e n)) < totalLife (?e n)"
    if "isActive (?e n)" and "particles (?e n) \<noteq> []"
  proof (rule totalLife_update [OF that])
    show "\<forall>p \<in> set (particles (?e n)). 0 < decay p \<and> 0 < life p"
      using b [of n] by fastforce
  qed
  have c: "\<not> isActive (update (?e n)) \<longleftrightarrow> particles (update (?e n)) = []" if "isActive (?e n)"
    using that by (simp add: isActive_update)
  have empty: "particles (?e k) = []" if "67 \<le> k" for k
  proof (rule ccontr)
    assume "particles (?e k) \<noteq> []"
    then obtain p where p: "p \<in> set (particles (?e k))" by (cases "particles (?e k)") auto
    with b [of k] have "0 < life p" and "life p \<le> 1 - real k * 0.015" by simp_all
    moreover have "67 \<le> real k" using that by simp
    ultimately show False by simp
  qed
  have d: "particles (?e n) = [] \<and> \<not> isActive (?e n)" if n: "67 \<le> n"
  proof -
    obtain j where j: "n = Suc j" using n by (cases n) simp_all
    have e: "particles (?e n) = []" using n by (rule empty)
    have "\<not> isActive (?e n)"
    proof (cases "isActive (?e j)")
      case True
      then have "isActive (update (?e j)) = (particles (update (?e j)) \<noteq> [])"
        by (rule isActive_update)
      with e show ?thesis by (simp add: j)
    next
      case False
      then show ?thesis by (simp add: j update_inactive)
    qed
    with e show ?thesis by simp
  qed
  from a c d show ?thesis by blast
qed

text \<open>
  The statement with every draw 1/2, on the example canvas: the first step decreases the
  total life, and the batch has ended after 67 steps.
\<close>

theorem update_decreases_life_and_ends_example:
  "totalLife (update (ExplosionParticles_new (\<lambda>k. 1 / 2) exampleCanvas 100 50))
     < totalLife (ExplosionParticles_new (\<lambda>k. 1 / 2) exampleCanvas 100 50)
   \<and> particles ((update ^^ 67) (ExplosionParticles_new (\<lambda>k. 1 / 2) exampleCanvas 100 50)) = []
   \<and> \<not> isActive ((update ^^ 67) (ExplosionParticles_new (\<lambda>k. 1 / 2) exampleCanvas 100 50))"
proof -
  let ?e = "ExplosionParticles_new (\<lambda>k. 1 / 2) exampleCanvas 100 50"
  have r: "\<forall>k::nat. 0 \<le> (1 / 2 :: real) \<and> (1 / 2 :: real) < 1" by simp
  have "length (particles ?e) = 20"
    by (simp add: particles_new exampleCanvas_def detectPerformance_def)
  then have ne: "particles ?e \<noteq> []" by auto
  have act: "isActive ?e" by (rule isActive_new)
  from update_decreases_life_and_ends
    [where rnd = "\<lambda>k. 1 / 2" and cm = exampleCanvas and ?x0.0 = 100 and ?y0.0 = 50 and n = 0,
      OF r] ne act
  have a: "totalLife (update ?e) < totalLife ?e" by simp
  from update_decreases_life_and_ends
    [where rnd = "\<lambda>k. 1 / 2" and cm = exampleCanvas and ?x0.0 = 100 and ?y0.0 = 50 and n = 67,
      OF r]
  have b: "particles ((update ^^ 67) ?e) = [] \<and> \<not> isActive ((update ^^ 67) ?e)" by simp
  from a b show ?thesis by simp
qed

text \<open>
  Claim C10. After \<^verbatim>\<open>update()\<close> on an active batch every particle left has a life
  strictly above 0: a particle whose life reaches exactly 0 in the step is removed in
  that step. So whenever the batch is active after an \<^verbatim>\<open>update()\<close>, all stored lives are
  positive. In a run that starts at a constructed batch (whatever the draws) an inactive
  batch is empty, so there all stored lives are positive in every state: after the
  constructor and after every \<^verbatim>\<open>update()\<close>.
\<close>

theorem update_leaves_positive_lives:
  "(isActive e \<longrightarrow> (\<forall>p \<in> set (particles (update e)). 0 < life p))
   \<and> (isActive (update e) \<longrightarrow> (\<forall>p \<in> set (particles (update e)). 0 < life p))
   \<and> (\<forall>p \<in> set (particles ((update ^^ n) (ExplosionParticles_new rnd cm x0 y0))).
        0 < life p)"
proof -
  have a: "\<forall>p \<in> set (particles (update e)). 0 < life p" if "isActive e" for e
    using that by (simp add: particles_update)
  have b: "\<forall>p \<in> set (particles (update e)). 0 < life p" if "isActive (update e)"
  proof (cases "isActive e")
    case True
    then show ?thesis by (rule a)
  next
    case False
    with that show ?thesis by (simp add: update_inactive)
  qed
  have c: "\<forall>p \<in> set (particles ((update ^^ n) (ExplosionParticles_new rnd cm x0 y0))).
        0 < life p"
  proof (cases n)
    case 0
    then show ?thesis by (simp add: particles_new newParticle_def)
  next
    case (Suc j)
    let ?e = "(update ^^ j) (ExplosionParticles_new rnd cm x0 y0)"
    have "\<forall>p \<in> set (particles (update ?e)). 0 < life p"
    proof (cases "isActive ?e")
      case True
      then show ?thesis by (rule a)
    next
      case False
      with reachable_empty_if_inactive [of j rnd cm x0 y0]
      show ?thesis by (simp add: update_inactive)
    qed
    then show ?thesis by (simp add: Suc)
  qed
  from a b c show ?thesis by simp
qed

text \<open>
  The example batch: the first particle, with life 0.02 and decay 0.02, is removed by the
  step; the second one is left, with a positive life.
\<close>

theorem update_leaves_positive_lives_example:
  "isActive exampleBatch
   \<and> length (particles (update exampleBatch)) = 1
   \<and> 0 < life (hd (particles (update exampleBatch)))"
proof -
  have act: "isActive exampleBatch" by (simp add: exampleBatch_def)
  have len: "length (particles (update exampleBatch)) = 1"
    by (simp add: exampleBatch_def update_def moveParticle_def Let_def)
  then have "particles (update exampleBatch) \<noteq> []" by auto
  then have "hd (particles (update exampleBatch)) \<in> set (particles (update exampleBatch))"
    by (rule hd_in_set)
  with update_leaves_positive_lives [where e = exampleBatch and n = 0 and rnd = "\<lambda>k. 1 / 2"
      and cm = exampleCanvas and ?x0.0 = 100 and ?y0.0 = 50] act
  have "0 < life (hd (particles (update exampleBatch)))" by blast
  with act len show ?thesis by simp
qed

end
